theory Spec2Isabelle
  imports Complex_Main
begin

section \<open>The label locator of qdcontour2 (source/LabelLocator.cpp)\<close>

text \<open>
  The class \<^verbatim>\<open>LabelLocator\<close> collects candidate pixel coordinates for contour labels,
  chooses a subset whose members keep minimum distances from each other, and remembers
  the choice of the previous time step.

  Conventions of the embedding.
  \<^item> \<^verbatim>\<open>int\<close> members and arguments are integers; the subtraction and \<^verbatim>\<open>abs\<close> of
    \<^verbatim>\<open>chooseClosestToBorder\<close>, the only \<^verbatim>\<open>int\<close> arithmetic of the class, wrap around at
    32 bits.
  \<^item> A \<^verbatim>\<open>float\<close> is a number, an infinity or NaN, with the comparisons of the machine.
    A \<^verbatim>\<open>double\<close> distance is a real number: \<^verbatim>\<open>sqrt(dx*dx+dy*dy)\<close> is the exact
    Euclidean distance.
  \<^item> \<^verbatim>\<open>std::map\<close> is an association list in iteration order, searched with the map's
    comparison only; \<^verbatim>\<open>std::list\<close> is a list.
  \<^item> A reference to a list node is the position of the node. Reading it after the node
    was erased is undefined in the source; what such a read does is a parameter of the
    model.
  \<^item> A call that throws leaves every member as it was, except \<^verbatim>\<open>chooseLabels\<close>,
    whose result therefore carries the object as well.
\<close>

subsection \<open>Data\<close>

datatype float = NegInf | Val real | PosInf | NaN

text \<open>\<^verbatim>\<open>a < b\<close> on two floats.\<close>

fun float_less :: "float \<Rightarrow> float \<Rightarrow> bool" where
  "float_less NaN b = False"
| "float_less a NaN = False"
| "float_less PosInf b = False"
| "float_less a NegInf = False"
| "float_less NegInf b = True"
| "float_less a PosInf = True"
| "float_less (Val a) (Val b) = (a < b)"

text \<open>\<^verbatim>\<open>a != b\<close> on two floats: true whenever one of them is NaN.\<close>

fun float_ne :: "float \<Rightarrow> float \<Rightarrow> bool" where
  "float_ne NaN b = True"
| "float_ne a NaN = True"
| "float_ne a b = (a \<noteq> b)"

text \<open>\<^verbatim>\<open>d < t\<close> for a finite \<^verbatim>\<open>double\<close> \<open>d\<close> and a \<^verbatim>\<open>float\<close> \<open>t\<close>.\<close>

fun double_less :: "real \<Rightarrow> float \<Rightarrow> bool" where
  "double_less d (Val t) = (d < t)"
| "double_less d PosInf = True"
| "double_less d NegInf = False"
| "double_less d NaN = False"

type_synonym XY = "int \<times> int"
type_synonym Coordinates = "XY list"
type_synonym ContourCoordinates = "(float \<times> Coordinates) list"
type_synonym ParamCoordinates = "(int \<times> ContourCoordinates) list"

record LabelLocator =
  itHasBBox :: bool
  itsBBoxX1 :: int
  itsBBoxY1 :: int
  itsBBoxX2 :: int
  itsBBoxY2 :: int
  itsMinDistanceToSameValue :: float
  itsMinDistanceToDifferentValue :: float
  itsMinDistanceToDifferentParameter :: float
  itsActiveParameter :: int
  itsPreviousCoordinates :: ParamCoordinates
  itsCurrentCoordinates :: ParamCoordinates

text \<open>
  Every failure the class raises is a \<^verbatim>\<open>std::runtime_error\<close>; the first three
  constructors name the kinds of message: a setting changed too late or an empty bounding
  box (\<open>InvalidConfiguration\<close>), parameter number 0 activated or used (\<open>InvalidState\<close>),
  and "Internal error in LabelLocator::chooseLabels()" (\<open>InternalError\<close>).
  \<open>UseAfterFree\<close> is no exception: it stands for a read of an erased list node that
  ends the program, as it does under a memory checker.
\<close>

datatype error = InvalidConfiguration | InvalidState | InternalError | UseAfterFree

definition badparameter :: int where
  "badparameter = 0"

subsection \<open>Helpers of the anonymous namespace\<close>

definition distance :: "real \<Rightarrow> real \<Rightarrow> real \<Rightarrow> real \<Rightarrow> real" where
  "distance theX1 theY1 theX2 theY2 =
     sqrt ((theX2 - theX1) * (theX2 - theX1) + (theY2 - theY1) * (theY2 - theY1))"

fun mindistance_from :: "real \<Rightarrow> real \<Rightarrow> real \<Rightarrow> Coordinates \<Rightarrow> real" where
  "mindistance_from best theX theY [] = best"
| "mindistance_from best theX theY (it # rest) =
     (let dist = distance theX theY (real_of_int (fst it)) (real_of_int (snd it))
      in mindistance_from (if best < 0 then dist else min best dist) theX theY rest)"

definition mindistance :: "real \<Rightarrow> real \<Rightarrow> Coordinates \<Rightarrow> real" where
  "mindistance theX theY theCoords = mindistance_from (- 1) theX theY theCoords"

subsection \<open>Map access\<close>

text \<open>
  A map compares keys with its comparison \<open>lt\<close> only: \<^verbatim>\<open><\<close> on \<^verbatim>\<open>int\<close> for the parameters,
  \<open>float_less\<close> for the contour values. A search passes the entries whose key is less
  than the key sought and stops at the first that is not (\<^verbatim>\<open>lower_bound\<close>); that entry
  is the one sought unless the key sought is less than its key. A NaN is less than
  nothing and nothing is less than it, so a search for NaN stops at the first entry of
  the map and takes it for the one sought, and an entry with the key NaN, which only an
  empty map receives, is taken for every key and stays the only one.

  \<open>subscript lt k d f m\<close> is \<^verbatim>\<open>f(m[k])\<close>: the value under \<open>k\<close> is replaced by its
  image under \<open>f\<close>; a missing key is first inserted, at the place where the search
  stopped, with the default constructed value \<open>d\<close>.
\<close>

fun subscript ::
  "('k \<Rightarrow> 'k \<Rightarrow> bool) \<Rightarrow> 'k \<Rightarrow> 'v \<Rightarrow> ('v \<Rightarrow> 'v) \<Rightarrow> ('k \<times> 'v) list \<Rightarrow> ('k \<times> 'v) list" where
  "subscript lt k d f [] = [(k, f d)]"
| "subscript lt k d f ((k', v) # m) =
     (if lt k' k then (k', v) # subscript lt k d f m
      else if lt k k' then (k, f d) # (k', v) # m
      else (k', f v) # m)"

text \<open>\<^verbatim>\<open>table[param][contour].push_back(xy)\<close>, as in \<^verbatim>\<open>add\<close> and \<^verbatim>\<open>chooseLabels\<close>.\<close>

definition push_back_at :: "int \<Rightarrow> float \<Rightarrow> XY \<Rightarrow> ParamCoordinates \<Rightarrow> ParamCoordinates" where
  "push_back_at param contour xy table =
     subscript (<) param [] (subscript float_less contour [] (\<lambda>c. c @ [xy])) table"

text \<open>\<^verbatim>\<open>find\<close>: the value under a key, \<open>None\<close> for \<^verbatim>\<open>end()\<close>.\<close>

fun find_key :: "('k \<Rightarrow> 'k \<Rightarrow> bool) \<Rightarrow> 'k \<Rightarrow> ('k \<times> 'v) list \<Rightarrow> 'v option" where
  "find_key lt k [] = None"
| "find_key lt k ((k', v) # m) =
     (if lt k' k then find_key lt k m
      else if lt k k' then None
      else Some v)"

subsection \<open>Construction, settings and the candidate index\<close>

definition LabelLocator_init :: LabelLocator where
  "LabelLocator_init =
     \<lparr> itHasBBox = False, itsBBoxX1 = 0, itsBBoxY1 = 0, itsBBoxX2 = 0, itsBBoxY2 = 0,
       itsMinDistanceToSameValue = Val 100,
       itsMinDistanceToDifferentValue = Val 50,
       itsMinDistanceToDifferentParameter = Val 50,
       itsActiveParameter = 0,
       itsPreviousCoordinates = [],
       itsCurrentCoordinates = [] \<rparr>"

definition empty_locator :: "LabelLocator \<Rightarrow> bool" where
  "empty_locator l \<longleftrightarrow> itsPreviousCoordinates l = [] \<and> itsCurrentCoordinates l = []"

definition clear :: "LabelLocator \<Rightarrow> LabelLocator" where
  "clear l = l\<lparr> itsActiveParameter := badparameter,
               itsPreviousCoordinates := [],
               itsCurrentCoordinates := [] \<rparr>"

definition boundingBox :: "int \<Rightarrow> int \<Rightarrow> int \<Rightarrow> int \<Rightarrow> LabelLocator \<Rightarrow> error + LabelLocator" where
  "boundingBox theX1 theY1 theX2 theY2 l =
     (if \<not> empty_locator l then Inl InvalidConfiguration
      else if theX2 \<le> theX1 \<or> theY2 \<le> theY1 then Inl InvalidConfiguration
      else Inr (l\<lparr> itHasBBox := True,
                   itsBBoxX1 := theX1, itsBBoxY1 := theY1,
                   itsBBoxX2 := theX2, itsBBoxY2 := theY2 \<rparr>))"

definition minDistanceToSameValue :: "float \<Rightarrow> LabelLocator \<Rightarrow> error + LabelLocator" where
  "minDistanceToSameValue theDistance l =
     (if \<not> empty_locator l then Inl InvalidConfiguration
      else Inr (l\<lparr> itsMinDistanceToSameValue := theDistance \<rparr>))"

definition minDistanceToDifferentValue :: "float \<Rightarrow> LabelLocator \<Rightarrow> error + LabelLocator" where
  "minDistanceToDifferentValue theDistance l =
     (if \<not> empty_locator l then Inl InvalidConfiguration
      else Inr (l\<lparr> itsMinDistanceToDifferentValue := theDistance \<rparr>))"

definition minDistanceToDifferentParameter :: "float \<Rightarrow> LabelLocator \<Rightarrow> error + LabelLocator" where
  "minDistanceToDifferentParameter theDistance l =
     (if \<not> empty_locator l then Inl InvalidConfiguration
      else Inr (l\<lparr> itsMinDistanceToDifferentParameter := theDistance \<rparr>))"

definition parameter :: "int \<Rightarrow> LabelLocator \<Rightarrow> error + LabelLocator" where
  "parameter theParameter l =
     (if theParameter = badparameter then Inl InvalidState
      else Inr (l\<lparr> itsActiveParameter := theParameter \<rparr>))"

definition nextTime :: "LabelLocator \<Rightarrow> LabelLocator" where
  "nextTime l = l\<lparr> itsPreviousCoordinates := itsCurrentCoordinates l,
                  itsCurrentCoordinates := [] \<rparr>"

definition inside :: "LabelLocator \<Rightarrow> int \<Rightarrow> int \<Rightarrow> bool" where
  "inside l theX theY =
     (if \<not> itHasBBox l then True
      else theX \<ge> itsBBoxX1 l \<and> theX < itsBBoxX2 l \<and> theY \<ge> itsBBoxY1 l \<and> theY < itsBBoxY2 l)"

definition add :: "float \<Rightarrow> int \<Rightarrow> int \<Rightarrow> LabelLocator \<Rightarrow> error + LabelLocator" where
  "add theContour theX theY l =
     (if \<not> inside l theX theY then Inr l
      else if itsActiveParameter l = badparameter then Inl InvalidState
      else Inr (l\<lparr> itsCurrentCoordinates :=
                     push_back_at (itsActiveParameter l) theContour (theX, theY)
                       (itsCurrentCoordinates l) \<rparr>))"

subsection \<open>Choosing one candidate\<close>

text \<open>
  The functions return a \<^verbatim>\<open>const_iterator\<close> into the list of candidates: \<open>None\<close> is
  \<^verbatim>\<open>end()\<close>, \<open>Some i\<close> the position \<open>i\<close> of the list.
\<close>

fun closestToPrevious_from ::
  "real \<Rightarrow> nat option \<Rightarrow> Coordinates \<Rightarrow> nat \<Rightarrow> Coordinates \<Rightarrow> nat option" where
  "closestToPrevious_from bestdist best thePreviousChoises i [] = best"
| "closestToPrevious_from bestdist best thePreviousChoises i (it # rest) =
     (let mindist = mindistance (real_of_int (fst it)) (real_of_int (snd it)) thePreviousChoises
      in if bestdist < 0 \<or> mindist < bestdist
         then closestToPrevious_from mindist (Some i) thePreviousChoises (Suc i) rest
         else closestToPrevious_from bestdist best thePreviousChoises (Suc i) rest)"

definition chooseClosestToPrevious :: "Coordinates \<Rightarrow> Coordinates \<Rightarrow> nat option" where
  "chooseClosestToPrevious theCandidates thePreviousChoises =
     closestToPrevious_from (- 1) None thePreviousChoises 0 theCandidates"

text \<open>
  An \<^verbatim>\<open>int\<close> result that does not fit 32 bits: signed overflow is undefined in the
  source; the model wraps around, as the machine does.
\<close>

definition int32 :: "int \<Rightarrow> int" where
  "int32 x = (x + 2147483648) mod 4294967296 - 2147483648"

fun closestToBorder_from ::
  "LabelLocator \<Rightarrow> real \<Rightarrow> nat option \<Rightarrow> nat \<Rightarrow> Coordinates \<Rightarrow> nat option" where
  "closestToBorder_from l bestdist best i [] = best"
| "closestToBorder_from l bestdist best i (it # rest) =
     (let xdist = real_of_int (min (int32 \<bar>int32 (fst it - itsBBoxX1 l)\<bar>)
                                   (int32 \<bar>int32 (fst it - itsBBoxX2 l)\<bar>));
          ydist = real_of_int (min (int32 \<bar>int32 (snd it - itsBBoxY1 l)\<bar>)
                                   (int32 \<bar>int32 (snd it - itsBBoxY2 l)\<bar>));
          dist = min xdist ydist
      in if bestdist < 0 \<or> dist < bestdist
         then closestToBorder_from l dist (Some i) (Suc i) rest
         else closestToBorder_from l bestdist best (Suc i) rest)"

definition chooseClosestToBorder :: "LabelLocator \<Rightarrow> Coordinates \<Rightarrow> nat option" where
  "chooseClosestToBorder l theCandidates =
     (if theCandidates = [] then None
      else if \<not> itHasBBox l then Some 0
      else closestToBorder_from l (- 1) None 0 theCandidates)"

definition chooseOne :: "LabelLocator \<Rightarrow> Coordinates \<Rightarrow> int \<Rightarrow> float \<Rightarrow> nat option" where
  "chooseOne l theCandidates theParam theContour =
     (case find_key (<) theParam (itsPreviousCoordinates l) of
        None \<Rightarrow> chooseClosestToBorder l theCandidates
      | Some contours \<Rightarrow>
          (case find_key float_less theContour contours of
             None \<Rightarrow> chooseClosestToBorder l theCandidates
           | Some previous \<Rightarrow> chooseClosestToPrevious theCandidates previous))"

subsection \<open>Removing candidates\<close>

text \<open>The test of one candidate \<open>it\<close> of \<open>(param, contour)\<close> against the point \<open>p\<close> read.\<close>

definition erase_test :: "LabelLocator \<Rightarrow> XY \<Rightarrow> int \<Rightarrow> float \<Rightarrow> int \<Rightarrow> float \<Rightarrow> XY \<Rightarrow> bool" where
  "erase_test l p theParam theContour param contour it =
     (let dist = distance (real_of_int (fst p)) (real_of_int (snd p))
                          (real_of_int (fst it)) (real_of_int (snd it))
      in if param \<noteq> theParam then double_less dist (itsMinDistanceToDifferentParameter l)
         else if float_ne contour theContour then double_less dist (itsMinDistanceToDifferentValue l)
         else double_less dist (itsMinDistanceToSameValue l))"

text \<open>
  \<^verbatim>\<open>removeCandidates\<close> takes the chosen point as \<^verbatim>\<open>const XY & thePoint\<close>, and its caller
  binds the reference to \<^verbatim>\<open>*best\<close>, a node of one of the lists the function erases from.
  The three loops are three functions over the rest of the table still to visit. They
  carry where the node of \<^verbatim>\<open>thePoint\<close> is in that rest (\<open>None\<close> when it is not there)
  and whether it was erased. As long as it was not, a read of \<^verbatim>\<open>thePoint\<close> gives the
  coordinate \<open>thePoint\<close> stored in the node. After that the read is of freed memory:
  \<open>stale thePoint\<close> tells what it does, \<open>None\<close> when it ends the program and \<open>Some q\<close>
  when it yields \<open>q\<close>; \<open>stale = Some\<close> is a machine on which the freed node keeps its
  contents.
\<close>

fun removeFromCoordinates ::
  "LabelLocator \<Rightarrow> (XY \<Rightarrow> XY option) \<Rightarrow> XY \<Rightarrow> int \<Rightarrow> float \<Rightarrow> int \<Rightarrow> float
     \<Rightarrow> nat option \<Rightarrow> bool \<Rightarrow> Coordinates \<Rightarrow> error + (Coordinates \<times> bool)" where
  "removeFromCoordinates l stale thePoint theParam theContour param contour node erased [] =
     Inr ([], erased)"
| "removeFromCoordinates l stale thePoint theParam theContour param contour node erased (it # rest) =
     (case (if erased then stale thePoint else Some thePoint) of
        None \<Rightarrow> Inl UseAfterFree
      | Some p \<Rightarrow>
          (let erase = erase_test l p theParam theContour param contour it
           in case removeFromCoordinates l stale thePoint theParam theContour param contour
                     (case node of None \<Rightarrow> None | Some 0 \<Rightarrow> None | Some (Suc n) \<Rightarrow> Some n)
                     (erased \<or> (erase \<and> node = Some 0)) rest of
                Inl e \<Rightarrow> Inl e
              | Inr (rest', erased') \<Rightarrow> Inr (if erase then rest' else it # rest', erased')))"

fun removeFromContours ::
  "LabelLocator \<Rightarrow> (XY \<Rightarrow> XY option) \<Rightarrow> XY \<Rightarrow> int \<Rightarrow> float \<Rightarrow> int
     \<Rightarrow> (nat \<times> nat) option \<Rightarrow> bool \<Rightarrow> ContourCoordinates
     \<Rightarrow> error + (ContourCoordinates \<times> bool)" where
  "removeFromContours l stale thePoint theParam theContour param node erased [] =
     Inr ([], erased)"
| "removeFromContours l stale thePoint theParam theContour param node erased
     ((contour, coords) # rest) =
     (case removeFromCoordinates l stale thePoint theParam theContour param contour
             (case node of None \<Rightarrow> None | Some (0, i) \<Rightarrow> Some i | Some (Suc c, i) \<Rightarrow> None)
             erased coords of
        Inl e \<Rightarrow> Inl e
      | Inr (coords', erased') \<Rightarrow>
          (case removeFromContours l stale thePoint theParam theContour param
                  (case node of None \<Rightarrow> None | Some (0, i) \<Rightarrow> None
                   | Some (Suc c, i) \<Rightarrow> Some (c, i))
                  erased' rest of
             Inl e \<Rightarrow> Inl e
           | Inr (rest', erased'') \<Rightarrow> Inr ((contour, coords') # rest', erased'')))"

fun removeFromParams ::
  "LabelLocator \<Rightarrow> (XY \<Rightarrow> XY option) \<Rightarrow> XY \<Rightarrow> int \<Rightarrow> float
     \<Rightarrow> (nat \<times> nat \<times> nat) option \<Rightarrow> bool \<Rightarrow> ParamCoordinates
     \<Rightarrow> error + (ParamCoordinates \<times> bool)" where
  "removeFromParams l stale thePoint theParam theContour node erased [] = Inr ([], erased)"
| "removeFromParams l stale thePoint theParam theContour node erased
     ((param, contours) # rest) =
     (case removeFromContours l stale thePoint theParam theContour param
             (case node of None \<Rightarrow> None | Some (0, c, i) \<Rightarrow> Some (c, i)
              | Some (Suc p, c, i) \<Rightarrow> None)
             erased contours of
        Inl e \<Rightarrow> Inl e
      | Inr (contours', erased') \<Rightarrow>
          (case removeFromParams l stale thePoint theParam theContour
                  (case node of None \<Rightarrow> None | Some (0, c, i) \<Rightarrow> None
                   | Some (Suc p, c, i) \<Rightarrow> Some (p, c, i))
                  erased' rest of
             Inl e \<Rightarrow> Inl e
           | Inr (rest', erased'') \<Rightarrow> Inr ((param, contours') # rest', erased'')))"

text \<open>
  \<open>node = (p, c, i)\<close>: \<^verbatim>\<open>thePoint\<close> refers to position \<open>i\<close> of the list at position \<open>c\<close>
  of the contours at position \<open>p\<close> of \<open>theCandidates\<close>, and \<open>thePoint\<close> is the coordinate
  stored there.
\<close>

definition removeCandidates ::
  "LabelLocator \<Rightarrow> (XY \<Rightarrow> XY option) \<Rightarrow> ParamCoordinates \<Rightarrow> XY \<Rightarrow> nat \<times> nat \<times> nat
     \<Rightarrow> int \<Rightarrow> float \<Rightarrow> error + ParamCoordinates" where
  "removeCandidates l stale theCandidates thePoint node theParam theContour =
     (case removeFromParams l stale thePoint theParam theContour (Some node) False theCandidates of
        Inl e \<Rightarrow> Inl e
      | Inr (candidates', erased) \<Rightarrow> Inr candidates')"

definition removeEmpties :: "ParamCoordinates \<Rightarrow> ParamCoordinates" where
  "removeEmpties theCandidates =
     filter (\<lambda>(param, contours). contours \<noteq> [])
       (map (\<lambda>(param, contours). (param, filter (\<lambda>(contour, coords). coords \<noteq> []) contours))
          theCandidates)"

subsection \<open>chooseLabels\<close>

text \<open>
  The \<^verbatim>\<open>for\<close> loop over the contours of the first parameter of the candidates. The
  iterator \<^verbatim>\<open>cit\<close> is the position \<open>j\<close> in that parameter's contour map:
  \<^verbatim>\<open>removeCandidates\<close> erases coordinates only, so the positions stay valid while the
  lists under them shrink. The caller passes the positions \<open>[0..<n]\<close> of a non-empty
  candidate table. The chosen coordinate is copied into the choices before
  \<^verbatim>\<open>removeCandidates\<close> is given the reference \<^verbatim>\<open>*best\<close> to the node at position
  \<open>(0, j, best)\<close>.
\<close>

fun forContours ::
  "LabelLocator \<Rightarrow> (XY \<Rightarrow> XY option) \<Rightarrow> nat list \<Rightarrow> ParamCoordinates \<Rightarrow> ParamCoordinates
     \<Rightarrow> error + (ParamCoordinates \<times> ParamCoordinates)" where
  "forContours l stale [] candidates choices = Inr (candidates, choices)"
| "forContours l stale (j # js) candidates choices =
     (let param = fst (hd candidates);
          cit = snd (hd candidates) ! j
      in if snd cit = [] then forContours l stale js candidates choices
         else let val = fst cit
              in case chooseOne l (snd cit) param val of
                   None \<Rightarrow> Inl InternalError
                 | Some best \<Rightarrow>
                     (case removeCandidates l stale candidates (snd cit ! best) (0, j, best)
                             param val of
                        Inl e \<Rightarrow> Inl e
                      | Inr candidates' \<Rightarrow>
                          forContours l stale js candidates'
                            (push_back_at param val (snd cit ! best) choices)))"

text \<open>One pass of the body of the \<^verbatim>\<open>while\<close> loop.\<close>

definition chooseRound ::
  "LabelLocator \<Rightarrow> (XY \<Rightarrow> XY option) \<Rightarrow> ParamCoordinates \<Rightarrow> ParamCoordinates
     \<Rightarrow> error + (ParamCoordinates \<times> ParamCoordinates)" where
  "chooseRound l stale candidates choices =
     (case forContours l stale [0..<length (snd (hd candidates))] candidates choices of
        Inl e \<Rightarrow> Inl e
      | Inr (candidates', choices') \<Rightarrow> Inr (removeEmpties candidates', choices'))"

text \<open>The \<^verbatim>\<open>while\<close> loop; \<open>None\<close> when it runs forever.\<close>

partial_function (option) chooseLoop ::
  "LabelLocator \<Rightarrow> (XY \<Rightarrow> XY option) \<Rightarrow> ParamCoordinates \<Rightarrow> ParamCoordinates
     \<Rightarrow> (error + ParamCoordinates) option" where
  "chooseLoop l stale candidates choices =
     (if candidates = [] then Some (Inr choices)
      else case chooseRound l stale candidates choices of
             Inl e \<Rightarrow> Some (Inl e)
           | Inr (candidates', choices') \<Rightarrow> chooseLoop l stale candidates' choices')"

text \<open>
  \<^verbatim>\<open>chooseLabels\<close> returns the choices and leaves them in \<^verbatim>\<open>itsCurrentCoordinates\<close>;
  when it does not return normally that member is empty, the candidates having been
  swapped out.
\<close>

definition chooseLabels ::
  "(XY \<Rightarrow> XY option) \<Rightarrow> LabelLocator \<Rightarrow> ((error + ParamCoordinates) \<times> LabelLocator) option" where
  "chooseLabels stale l =
     (case chooseLoop l stale (itsCurrentCoordinates l) [] of
        None \<Rightarrow> None
      | Some (Inl e) \<Rightarrow> Some (Inl e, l\<lparr> itsCurrentCoordinates := [] \<rparr>)
      | Some (Inr choices) \<Rightarrow> Some (Inr choices, l\<lparr> itsCurrentCoordinates := choices \<rparr>))"

subsection \<open>Calls in sequence\<close>

datatype operation =
    BoundingBox int int int int
  | MinDistanceToSameValue float
  | MinDistanceToDifferentValue float
  | MinDistanceToDifferentParameter float
  | Parameter int
  | Add float int int
  | ChooseLabels
  | NextTime
  | Clear

text \<open>The object after a call, whether it returned or threw.\<close>

definition after :: "LabelLocator \<Rightarrow> error + LabelLocator \<Rightarrow> LabelLocator" where
  "after l r = (case r of Inl e \<Rightarrow> l | Inr l' \<Rightarrow> l')"

text \<open>
  \<open>None\<close>: there is no object after the call, because \<^verbatim>\<open>chooseLabels\<close> runs forever or
  the program ended in it.
\<close>

fun perform :: "(XY \<Rightarrow> XY option) \<Rightarrow> operation \<Rightarrow> LabelLocator \<Rightarrow> LabelLocator option" where
  "perform stale (BoundingBox x1 y1 x2 y2) l = Some (after l (boundingBox x1 y1 x2 y2 l))"
| "perform stale (MinDistanceToSameValue d) l = Some (after l (minDistanceToSameValue d l))"
| "perform stale (MinDistanceToDifferentValue d) l =
     Some (after l (minDistanceToDifferentValue d l))"
| "perform stale (MinDistanceToDifferentParameter d) l =
     Some (after l (minDistanceToDifferentParameter d l))"
| "perform stale (Parameter p) l = Some (after l (parameter p l))"
| "perform stale (Add c x y) l = Some (after l (add c x y l))"
| "perform stale ChooseLabels l =
     (case chooseLabels stale l of
        None \<Rightarrow> None
      | Some (Inl UseAfterFree, l') \<Rightarrow> None
      | Some (r, l') \<Rightarrow> Some l')"
| "perform stale NextTime l = Some (nextTime l)"
| "perform stale Clear l = Some (clear l)"

fun run :: "(XY \<Rightarrow> XY option) \<Rightarrow> operation list \<Rightarrow> LabelLocator \<Rightarrow> LabelLocator option" where
  "run stale [] l = Some l"
| "run stale (op # ops) l =
     (case perform stale op l of None \<Rightarrow> None | Some l' \<Rightarrow> run stale ops l')"

subsection \<open>The entries of a table\<close>

text \<open>
  The coordinates of a table in iteration order, each with its parameter and contour value.
\<close>

fun contour_entries :: "int \<Rightarrow> ContourCoordinates \<Rightarrow> (int \<times> float \<times> XY) list" where
  "contour_entries param [] = []"
| "contour_entries param ((contour, coords) # contours) =
     map (\<lambda>xy. (param, contour, xy)) coords @ contour_entries param contours"

fun entries :: "ParamCoordinates \<Rightarrow> (int \<times> float \<times> XY) list" where
  "entries [] = []"
| "entries ((param, contours) # table) = contour_entries param contours @ entries table"

definition xy_distance :: "XY \<Rightarrow> XY \<Rightarrow> real" where
  "xy_distance p q = distance (real_of_int (fst p)) (real_of_int (snd p))
                              (real_of_int (fst q)) (real_of_int (snd q))"

text \<open>The coordinates of a table, whatever their parameter and contour value.\<close>

definition points :: "ParamCoordinates \<Rightarrow> XY set" where
  "points table = (\<lambda>e. snd (snd e)) ` set (entries table)"

subsection \<open>Kinds of calls\<close>

fun activates :: "operation \<Rightarrow> bool" where
  "activates (Parameter p) = True"
| "activates _ = False"

subsection \<open>Containment\<close>

text \<open>Every stored coordinate passes the bounding-box test.\<close>

definition contained :: "LabelLocator \<Rightarrow> bool" where
  "contained l \<longleftrightarrow>
     (\<forall>e\<in>set (entries (itsCurrentCoordinates l)) \<union> set (entries (itsPreviousCoordinates l)).
        inside l (fst (snd (snd e))) (snd (snd (snd e))))"

subsection \<open>Concrete locators\<close>

text \<open>A locator with the bounding box \<open>(0,0,10,10)\<close> and nothing else.\<close>

definition boxed :: LabelLocator where
  "boxed = LabelLocator_init\<lparr> itHasBBox := True, itsBBoxX1 := 0, itsBBoxY1 := 0,
                              itsBBoxX2 := 10, itsBBoxY2 := 10 \<rparr>"

text \<open>The locator \<open>boxed\<close> after one coordinate inside the box was added.\<close>

definition boxed_one :: LabelLocator where
  "boxed_one = boxed\<lparr> itsActiveParameter := 1,
                        itsCurrentCoordinates := [(1, [(Val 1, [(5,5)])])] \<rparr>"

text \<open>The first frame of the temporal-bias scenario: one candidate \<open>(2,2)\<close>.\<close>

definition temporal_before :: LabelLocator where
  "temporal_before = LabelLocator_init\<lparr> itsMinDistanceToSameValue := Val 1,
     itsActiveParameter := 1,
     itsCurrentCoordinates := [(1, [(Val 5, [(2,2)])])] \<rparr>"

text \<open>
  Its second frame: \<open>(2,2)\<close> is the previous choice, \<open>(0,0)\<close> and \<open>(100,100)\<close> are the
  candidates, added in this order.
\<close>

definition temporal_bias :: LabelLocator where
  "temporal_bias = LabelLocator_init\<lparr> itsMinDistanceToSameValue := Val 1,
     itsActiveParameter := 1,
     itsPreviousCoordinates := [(1, [(Val 5, [(2,2)])])],
     itsCurrentCoordinates := [(1, [(Val 5, [(0,0),(100,100)])])] \<rparr>"


text \<open>The cascade-removal scenario.\<close>

definition cascade :: LabelLocator where
  "cascade = LabelLocator_init\<lparr> itsMinDistanceToSameValue := Val 20,
     itsMinDistanceToDifferentValue := Val 1, itsActiveParameter := 1,
     itsCurrentCoordinates := [(1, [(Val 1, [(0,0),(10,10)]), (Val 2, [(5,5)])])] \<rparr>"

text \<open>One candidate and the minimum distance to the same value set to 0.\<close>

definition zero_distance :: LabelLocator where
  "zero_distance = LabelLocator_init\<lparr> itsMinDistanceToSameValue := Val 0,
     itsActiveParameter := 1,
     itsCurrentCoordinates := [(1, [(Val 1, [(0,0)])])] \<rparr>"

text \<open>Two candidates of one contour, closer than the minimum distance 20 to the same value.\<close>

definition close_pair :: LabelLocator where
  "close_pair = LabelLocator_init\<lparr> itsMinDistanceToSameValue := Val 20,
     itsActiveParameter := 1,
     itsCurrentCoordinates := [(1, [(Val 1, [(0,0),(10,10)])])] \<rparr>"

text \<open>
  A default constructed locator with two candidates 60 pixels apart under the contour
  value NaN, and another with two such candidates 75 pixels apart.
\<close>

definition nan_state :: LabelLocator where
  "nan_state = LabelLocator_init\<lparr> itsActiveParameter := 1,
     itsCurrentCoordinates := [(1, [(NaN, [(0,0),(60,0)])])] \<rparr>"


text \<open>
  Two candidates 60 pixels apart under the contour value NaN in the bounding box
  \<open>(0,0,200,200)\<close>, the default distances; the second one added lies on the border.
\<close>

definition nan_boxed :: LabelLocator where
  "nan_boxed = LabelLocator_init\<lparr> itHasBBox := True, itsBBoxX2 := 200, itsBBoxY2 := 200,
     itsActiveParameter := 1, itsCurrentCoordinates := [(1, [(NaN, [(60,50),(0,50)])])] \<rparr>"

text \<open>
  A default constructed locator after one candidate \<open>(0,75)\<close> under the contour value NaN
  was added, and in the next time step, with that candidate as the previous choice and
  the candidates \<open>(0,0)\<close> and \<open>(0,75)\<close>.
\<close>

definition default_nan_first :: LabelLocator where
  "default_nan_first = LabelLocator_init\<lparr> itsActiveParameter := 7,
     itsCurrentCoordinates := [(7, [(NaN, [(0,75)])])] \<rparr>"


section \<open>Evaluation\<close>

lemma sqrt_less_iff:
  assumes "0 \<le> a"
  shows "sqrt a < d \<longleftrightarrow> 0 < d \<and> a < d * d"
proof (cases "0 < d")
  case True
  then have "sqrt a < d \<longleftrightarrow> sqrt a < sqrt (d * d)" by simp
  also have "\<dots> \<longleftrightarrow> a < d * d" by (rule real_sqrt_less_iff)
  finally show ?thesis using True by simp
next
  case False
  have "0 \<le> sqrt a" using assms by simp
  with False have "\<not> sqrt a < d" by linarith
  with False show ?thesis by simp
qed

lemma chooseLoop_Nil: "chooseLoop l stale [] choices = Some (Inr choices)"
  by (subst chooseLoop.simps) simp

lemma chooseLoop_round:
  "candidates \<noteq> [] \<Longrightarrow> chooseRound l stale candidates choices = Inr (candidates', choices')
    \<Longrightarrow> chooseLoop l stale candidates choices = chooseLoop l stale candidates' choices'"
  by (subst chooseLoop.simps) simp

lemma chooseLoop_error:
  "candidates \<noteq> [] \<Longrightarrow> chooseRound l stale candidates choices = Inl e
    \<Longrightarrow> chooseLoop l stale candidates choices = Some (Inl e)"
  by (subst chooseLoop.simps) simp

lemmas choose_eval = chooseRound_def chooseOne_def chooseClosestToBorder_def
  chooseClosestToPrevious_def removeCandidates_def removeEmpties_def erase_test_def
  distance_def sqrt_less_iff push_back_at_def mindistance_def Let_def

lemmas call_eval = after_def boundingBox_def minDistanceToSameValue_def
  minDistanceToDifferentValue_def minDistanceToDifferentParameter_def parameter_def add_def
  inside_def empty_locator_def badparameter_def nextTime_def clear_def push_back_at_def

section \<open>What the calls leave unchanged\<close>

lemma chooseLabels_frame:
  assumes "chooseLabels stale l = Some (r, l')"
  shows "itsActiveParameter l' = itsActiveParameter l"
    and "itsPreviousCoordinates l' = itsPreviousCoordinates l"
    and "itHasBBox l' = itHasBBox l"
    and "itsBBoxX1 l' = itsBBoxX1 l" and "itsBBoxY1 l' = itsBBoxY1 l"
    and "itsBBoxX2 l' = itsBBoxX2 l" and "itsBBoxY2 l' = itsBBoxY2 l"
    and "itsMinDistanceToSameValue l' = itsMinDistanceToSameValue l"
    and "itsMinDistanceToDifferentValue l' = itsMinDistanceToDifferentValue l"
    and "itsMinDistanceToDifferentParameter l' = itsMinDistanceToDifferentParameter l"
  using assms by (auto simp: chooseLabels_def split: option.splits sum.splits)

lemma perform_ChooseLabels:
  assumes "perform stale ChooseLabels l = Some l'"
  shows "\<exists>r. chooseLabels stale l = Some (r, l')"
  using assms by (auto split: option.splits sum.splits error.splits prod.splits)

lemma perform_keeps_unset:
  assumes "perform stale op l = Some l'" and "\<not> activates op"
    and "itsActiveParameter l = badparameter"
  shows "itsActiveParameter l' = badparameter"
proof (cases op)
  case ChooseLabels
  with assms(1) obtain r where "chooseLabels stale l = Some (r, l')"
    using perform_ChooseLabels by blast
  with assms(3) show ?thesis by (simp add: chooseLabels_frame(1))
qed (use assms in \<open>auto simp: call_eval split: if_splits\<close>)

lemma run_keeps_unset:
  "run stale ops l = Some l' \<Longrightarrow> \<forall>op\<in>set ops. \<not> activates op
     \<Longrightarrow> itsActiveParameter l = badparameter \<Longrightarrow> itsActiveParameter l' = badparameter"
proof (induction ops arbitrary: l)
  case Nil
  then show ?case by simp
next
  case (Cons op ops)
  from Cons.prems(1) obtain m where m: "perform stale op l = Some m"
    and r: "run stale ops m = Some l'"
    by (auto split: option.splits)
  have "itsActiveParameter m = badparameter"
    using perform_keeps_unset[OF m] Cons.prems by simp
  with Cons.IH[OF r] Cons.prems(2) show ?case by simp
qed

section \<open>The entries of the tables\<close>

lemma contour_entries_member:
  "(g, s, p) \<in> set (contour_entries g' cs)
     \<longleftrightarrow> g = g' \<and> (\<exists>coords. (s, coords) \<in> set cs \<and> p \<in> set coords)"
  by (induction cs) auto

lemma entries_member:
  "(g, s, p) \<in> set (entries t)
     \<longleftrightarrow> (\<exists>cs coords. (g, cs) \<in> set t \<and> (s, coords) \<in> set cs \<and> p \<in> set coords)"
  by (induction t) (auto simp: contour_entries_member)

lemma points_Nil: "points [] = {}"
  by (simp add: points_def)

lemma points_iff: "p \<in> points t \<longleftrightarrow> (\<exists>g s. (g, s, p) \<in> set (entries t))"
  by (force simp: points_def)

lemma contour_entries_removeEmpties:
  "contour_entries g (filter (\<lambda>(contour, coords). coords \<noteq> []) cs) = contour_entries g cs"
  by (induction cs) auto

lemma entries_removeEmpties: "entries (removeEmpties c) = entries c"
proof (induction c)
  case Nil
  then show ?case by (simp add: removeEmpties_def)
next
  case (Cons a c)
  obtain g cs where a: "a = (g, cs)" by (cases a)
  have "entries (removeEmpties (a # c))
        = (if filter (\<lambda>(contour, coords). coords \<noteq> []) cs \<noteq> []
           then contour_entries g (filter (\<lambda>(contour, coords). coords \<noteq> []) cs) else [])
          @ entries (removeEmpties c)"
    by (simp add: removeEmpties_def a)
  also have "\<dots> = contour_entries g (filter (\<lambda>(contour, coords). coords \<noteq> []) cs)
                   @ entries (removeEmpties c)"
    by simp
  finally show ?case using Cons.IH by (simp add: a contour_entries_removeEmpties)
qed

lemma points_removeEmpties: "points (removeEmpties c) = points c"
  by (simp add: points_def entries_removeEmpties)

lemma contour_points:
  "(\<lambda>e. snd (snd e)) ` set (contour_entries g cs) = set (concat (map snd cs))"
proof (induction cs)
  case Nil
  show ?case by simp
next
  case (Cons a cs)
  obtain k v where a: "a = (k, v)" by (cases a)
  have "(\<lambda>e. snd (snd e)) ` set (contour_entries g (a # cs))
          = set v \<union> (\<lambda>e. snd (snd e)) ` set (contour_entries g cs)"
    by (simp add: a image_Un image_image)
  with Cons.IH show ?case by (simp add: a)
qed

lemma points_Cons: "points ((g, cs) # t) = set (concat (map snd cs)) \<union> points t"
  unfolding points_def using contour_points[of g cs] by (simp add: image_Un)

lemma contour_points_subscript:
  "set (concat (map snd (subscript float_less s [] (\<lambda>c. c @ [p]) cs)))
     = insert p (set (concat (map snd cs)))"
proof (induction cs)
  case Nil
  show ?case by simp
next
  case (Cons a cs)
  obtain k v where a: "a = (k, v)" by (cases a)
  show ?case
  proof (cases "float_less k s")
    case True
    with Cons.IH show ?thesis by (simp add: a)
  next
    case False
    then show ?thesis by (cases "float_less s k") (simp_all add: a)
  qed
qed

lemma points_push_back_at: "points (push_back_at g s p t) = insert p (points t)"
  unfolding push_back_at_def
proof (induction t)
  case Nil
  show ?case by (simp add: points_Cons points_Nil)
next
  case (Cons a t)
  obtain g' cs where a: "a = (g', cs)" by (cases a)
  show ?case
  proof (cases "g' < g")
    case True
    with Cons.IH show ?thesis by (simp add: a points_Cons)
  next
    case False
    show ?thesis
    proof (cases "g < g'")
      case True
      with False show ?thesis by (simp add: a points_Cons)
    next
      case g: False
      from False g contour_points_subscript[of s p cs] show ?thesis
        by (simp add: a points_Cons)
    qed
  qed
qed

section \<open>removeCandidates only erases coordinates\<close>

lemma removeFromCoordinates_subset:
  "removeFromCoordinates l stale p tp tc g s node erased coords = Inr (coords', erased')
     \<Longrightarrow> set coords' \<subseteq> set coords"
proof (induction coords arbitrary: node erased coords' erased')
  case Nil
  then show ?case by simp
next
  case (Cons it rest)
  from Cons.prems obtain q where q: "(if erased then stale p else Some p) = Some q"
    by (cases "if erased then stale p else Some p") auto
  let ?erase = "erase_test l q tp tc g s it"
  let ?rec = "removeFromCoordinates l stale p tp tc g s
                (case node of None \<Rightarrow> None | Some 0 \<Rightarrow> None | Some (Suc n) \<Rightarrow> Some n)
                (erased \<or> (?erase \<and> node = Some 0)) rest"
  from Cons.prems q have
    e: "(case ?rec of Inl e \<Rightarrow> Inl e
         | Inr (rest', erased') \<Rightarrow> Inr (if ?erase then rest' else it # rest', erased'))
        = Inr (coords', erased')"
    by (simp add: Let_def)
  then obtain rest' e1 where r: "?rec = Inr (rest', e1)"
    by (cases ?rec) auto
  with e have c: "coords' = (if ?erase then rest' else it # rest')" by simp
  from Cons.IH[OF r] show ?case unfolding c by auto
qed

lemma removeFromContours_keeps:
  "removeFromContours l stale p tp tc g node erased cs = Inr (cs', erased')
     \<Longrightarrow> set (contour_entries g cs') \<subseteq> set (contour_entries g cs) \<and> length cs' = length cs"
proof (induction cs arbitrary: node erased cs' erased')
  case Nil
  then show ?case by simp
next
  case (Cons a cs)
  obtain s coords where a: "a = (s, coords)" by (cases a)
  from Cons.prems obtain coords' e1 rest' where
    c: "removeFromCoordinates l stale p tp tc g s
          (case node of None \<Rightarrow> None | Some (0, i) \<Rightarrow> Some i | Some (Suc c, i) \<Rightarrow> None)
          erased coords = Inr (coords', e1)"
    and r: "removeFromContours l stale p tp tc g
          (case node of None \<Rightarrow> None | Some (0, i) \<Rightarrow> None | Some (Suc c, i) \<Rightarrow> Some (c, i))
          e1 cs = Inr (rest', erased')"
    and cs': "cs' = (s, coords') # rest'"
    by (auto simp: a split: sum.splits)
  from removeFromCoordinates_subset[OF c] Cons.IH[OF r] show ?case
    by (auto simp: cs' a)
qed

lemma removeFromParams_keeps:
  "removeFromParams l stale p tp tc node erased c = Inr (c', erased')
     \<Longrightarrow> set (entries c') \<subseteq> set (entries c) \<and> map fst c' = map fst c
         \<and> map (\<lambda>a. length (snd a)) c' = map (\<lambda>a. length (snd a)) c"
proof (induction c arbitrary: node erased c' erased')
  case Nil
  then show ?case by simp
next
  case (Cons a c)
  obtain g cs where a: "a = (g, cs)" by (cases a)
  from Cons.prems obtain cs' e1 rest' where
    c: "removeFromContours l stale p tp tc g
          (case node of None \<Rightarrow> None | Some (0, c, i) \<Rightarrow> Some (c, i) | Some (Suc p, c, i) \<Rightarrow> None)
          erased cs = Inr (cs', e1)"
    and r: "removeFromParams l stale p tp tc
          (case node of None \<Rightarrow> None | Some (0, c, i) \<Rightarrow> None
           | Some (Suc p, c, i) \<Rightarrow> Some (p, c, i))
          e1 c = Inr (rest', erased')"
    and c': "c' = (g, cs') # rest'"
    by (auto simp: a split: sum.splits)
  from removeFromContours_keeps[OF c] Cons.IH[OF r] show ?case
    by (auto simp: c' a)
qed

lemma removeCandidates_keeps:
  assumes "removeCandidates l stale c p node tp tc = Inr c'"
  shows "set (entries c') \<subseteq> set (entries c)"
    and "c' = [] \<longleftrightarrow> c = []"
    and "c \<noteq> [] \<Longrightarrow> length (snd (hd c')) = length (snd (hd c))"
proof -
  from assms obtain e where "removeFromParams l stale p tp tc (Some node) False c = Inr (c', e)"
    by (auto simp: removeCandidates_def split: sum.splits)
  from removeFromParams_keeps[OF this]
  have s: "set (entries c') \<subseteq> set (entries c)" and f: "map fst c' = map fst c"
    and n: "map (\<lambda>a. length (snd a)) c' = map (\<lambda>a. length (snd a)) c"
    by blast+
  show "set (entries c') \<subseteq> set (entries c)" by (rule s)
  from f show e: "c' = [] \<longleftrightarrow> c = []" by (metis map_is_Nil_conv)
  show "length (snd (hd c')) = length (snd (hd c))" if "c \<noteq> []"
  proof -
    from that e obtain a r a' r' where "c = a # r" "c' = a' # r'"
      by (cases c; cases c') auto
    with n show ?thesis by simp
  qed
qed

lemma points_removeCandidates:
  assumes "removeCandidates l stale c p node tp tc = Inr c'"
  shows "points c' \<subseteq> points c"
  using removeCandidates_keeps(1)[OF assms] unfolding points_def by blast

section \<open>The iterator chooseOne returns\<close>

lemma closestToPrevious_from_range:
  "closestToPrevious_from bestdist best prev i xs = Some k
     \<Longrightarrow> best = Some k \<or> (i \<le> k \<and> k < i + length xs)"
proof (induction xs arbitrary: bestdist best i)
  case Nil
  then show ?case by simp
next
  case (Cons x xs)
  from Cons.prems show ?case
    by (auto simp: Let_def split: if_splits dest!: Cons.IH)
qed

lemma closestToBorder_from_range:
  "closestToBorder_from l bestdist best i xs = Some k
     \<Longrightarrow> best = Some k \<or> (i \<le> k \<and> k < i + length xs)"
proof (induction xs arbitrary: bestdist best i)
  case Nil
  then show ?case by simp
next
  case (Cons x xs)
  from Cons.prems show ?case
    by (auto simp: Let_def split: if_splits dest!: Cons.IH)
qed

lemma chooseOne_range:
  assumes "chooseOne l coords g s = Some k"
  shows "k < length coords"
proof -
  have b: "chooseClosestToBorder l coords = Some k \<Longrightarrow> k < length coords"
    using closestToBorder_from_range[of l "- 1" None 0 coords k]
    by (auto simp: chooseClosestToBorder_def split: if_splits)
  have p: "chooseClosestToPrevious coords prev = Some k \<Longrightarrow> k < length coords" for prev
    using closestToPrevious_from_range[of "- 1" None prev 0 coords k]
    by (auto simp: chooseClosestToPrevious_def)
  from assms b p show ?thesis
    by (auto simp: chooseOne_def split: option.splits)
qed

section \<open>The choices are candidates\<close>

lemma position_point:
  assumes "c \<noteq> []" and "j < length (snd (hd c))" and "k < length (snd (snd (hd c) ! j))"
  shows "snd (snd (hd c) ! j) ! k \<in> points c"
proof -
  have "(fst (hd c), snd (hd c)) \<in> set c" using assms(1) by simp
  moreover have "(fst (snd (hd c) ! j), snd (snd (hd c) ! j)) \<in> set (snd (hd c))"
    using assms(2) by simp
  moreover have "snd (snd (hd c) ! j) ! k \<in> set (snd (snd (hd c) ! j))"
    using assms(3) by simp
  ultimately have "(fst (hd c), fst (snd (hd c) ! j), snd (snd (hd c) ! j) ! k) \<in> set (entries c)"
    unfolding entries_member by blast
  then show ?thesis unfolding points_iff by blast
qed

lemma forContours_points:
  assumes "forContours l stale js c ch = Inr (c', ch')"
    and "c \<noteq> []" and "\<forall>j\<in>set js. j < length (snd (hd c))"
  shows "points c' \<union> points ch' \<subseteq> points c \<union> points ch"
  using assms
proof (induction js arbitrary: c ch)
  case Nil
  then show ?case by simp
next
  case (Cons j js)
  let ?g = "fst (hd c)" and ?cit = "snd (hd c) ! j"
  show ?case
  proof (cases "snd ?cit = []")
    case True
    with Cons.prems have "forContours l stale js c ch = Inr (c', ch')" by simp
    from Cons.IH[OF this Cons.prems(2)] Cons.prems(3) show ?thesis by simp
  next
    case False
    from Cons.prems(1) False obtain best where b: "chooseOne l (snd ?cit) ?g (fst ?cit) = Some best"
      by (cases "chooseOne l (snd ?cit) ?g (fst ?cit)") (auto simp: Let_def)
    let ?xy = "snd ?cit ! best"
    from Cons.prems(1) False b obtain c1 where
      r: "removeCandidates l stale c ?xy (0, j, best) ?g (fst ?cit) = Inr c1"
      by (cases "removeCandidates l stale c ?xy (0, j, best) ?g (fst ?cit)") (auto simp: Let_def)
    with Cons.prems(1) False b have
      f: "forContours l stale js c1 (push_back_at ?g (fst ?cit) ?xy ch) = Inr (c', ch')"
      by (simp add: Let_def)
    have j: "j < length (snd (hd c))" using Cons.prems(3) by simp
    have xy: "?xy \<in> points c"
      by (rule position_point[OF Cons.prems(2) j chooseOne_range[OF b]])
    have n: "c1 \<noteq> []" using removeCandidates_keeps(2)[OF r] Cons.prems(2) by simp
    have g: "\<forall>j\<in>set js. j < length (snd (hd c1))"
      using removeCandidates_keeps(3)[OF r Cons.prems(2)] Cons.prems(3) by simp
    from Cons.IH[OF f n g] points_removeCandidates[OF r] xy show ?thesis
      by (auto simp: points_push_back_at)
  qed
qed

lemma chooseRound_points:
  assumes "chooseRound l stale c ch = Inr (c', ch')" and "c \<noteq> []"
  shows "points c' \<union> points ch' \<subseteq> points c \<union> points ch"
proof -
  from assms(1) obtain c1 where
    f: "forContours l stale [0..<length (snd (hd c))] c ch = Inr (c1, ch')"
    and c': "c' = removeEmpties c1"
    by (auto simp: chooseRound_def split: sum.splits)
  have "\<forall>j\<in>set [0..<length (snd (hd c))]. j < length (snd (hd c))" by simp
  from forContours_points[OF f assms(2) this] show ?thesis
    by (simp add: c' points_removeEmpties)
qed

lemma chooseLoop_points:
  assumes "chooseLoop l stale c ch = Some (Inr choices)"
  shows "points choices \<subseteq> points c \<union> points ch"
proof -
  let ?P = "\<lambda>(l' :: LabelLocator) (st :: XY \<Rightarrow> XY option) c ch (r :: error + ParamCoordinates).
              st = stale \<longrightarrow> l' = l \<longrightarrow>
              (\<forall>choices. r = Inr choices \<longrightarrow> points choices \<subseteq> points c \<union> points ch)"
  have "?P l stale c ch (Inr choices)"
  proof (rule chooseLoop.raw_induct[where P = ?P, OF _ assms])
    fix f l' st c ch r
    assume ih: "\<And>l st c ch r. f l st c ch = Some r \<Longrightarrow> ?P l st c ch r"
      and eq: "(if c = [] then Some (Inr ch)
                else case chooseRound l' st c ch of
                       Inl e \<Rightarrow> Some (Inl e)
                     | Inr (candidates', choices') \<Rightarrow> f l' st candidates' choices') = Some r"
    show "?P l' st c ch r"
    proof (intro impI allI)
      fix choices
      assume st: "st = stale" and l: "l' = l" and r: "r = Inr choices"
      show "points choices \<subseteq> points c \<union> points ch"
      proof (cases "c = []")
        case True
        with eq r show ?thesis by auto
      next
        case False
        from eq False r obtain c1 ch1 where
          round: "chooseRound l' st c ch = Inr (c1, ch1)" and rec: "f l' st c1 ch1 = Some r"
          by (cases "chooseRound l' st c ch") auto
        from ih[OF rec] st l r have "points choices \<subseteq> points c1 \<union> points ch1" by simp
        with chooseRound_points[OF round False] show ?thesis by blast
      qed
    qed
  qed
  then show ?thesis by simp
qed

section \<open>Containment\<close>

lemma contained_points:
  "contained l \<longleftrightarrow>
     (\<forall>p\<in>points (itsCurrentCoordinates l) \<union> points (itsPreviousCoordinates l).
        inside l (fst p) (snd p))"
  unfolding contained_def points_def image_Un[symmetric] by simp

lemma chooseLabels_contained:
  assumes "contained l" and "chooseLabels stale l = Some (r, l')"
  shows "contained l'"
proof -
  from assms(2) obtain r' where r': "chooseLoop l stale (itsCurrentCoordinates l) [] = Some r'"
    by (auto simp: chooseLabels_def split: option.splits)
  have i: "inside l' = inside l"
    using chooseLabels_frame[OF assms(2)] by (simp add: inside_def fun_eq_iff)
  have p: "itsPreviousCoordinates l' = itsPreviousCoordinates l"
    by (rule chooseLabels_frame(2)[OF assms(2)])
  have "points (itsCurrentCoordinates l') \<subseteq> points (itsCurrentCoordinates l)"
  proof (cases r')
    case (Inl e)
    with assms(2) r' show ?thesis by (auto simp: chooseLabels_def points_Nil)
  next
    case (Inr choices)
    with chooseLoop_points[of l stale "itsCurrentCoordinates l" "[]" choices] r'
    have "points choices \<subseteq> points (itsCurrentCoordinates l)" by (simp add: points_Nil)
    with assms(2) r' Inr show ?thesis by (auto simp: chooseLabels_def)
  qed
  with assms(1) show ?thesis unfolding contained_points i p by blast
qed

lemma contained_subset:
  assumes "contained l" and "inside l' = inside l"
    and "points (itsCurrentCoordinates l') \<union> points (itsPreviousCoordinates l')
           \<subseteq> points (itsCurrentCoordinates l) \<union> points (itsPreviousCoordinates l)"
  shows "contained l'"
  using assms(1,3) unfolding contained_points assms(2) by blast

lemma boundingBox_contained:
  assumes "contained l"
  shows "contained (after l (boundingBox x1 y1 x2 y2 l))"
proof (cases "boundingBox x1 y1 x2 y2 l")
  case (Inl e)
  with assms show ?thesis by (simp add: after_def)
next
  case (Inr l')
  then have "itsCurrentCoordinates l' = []" "itsPreviousCoordinates l' = []"
    by (auto simp: boundingBox_def empty_locator_def split: if_splits)
  with Inr show ?thesis by (simp add: after_def contained_def)
qed

lemma add_contained:
  assumes "contained l"
  shows "contained (after l (add c x y l))"
proof (cases "inside l x y \<and> itsActiveParameter l \<noteq> badparameter")
  case False
  with assms show ?thesis by (auto simp: after_def add_def)
next
  case True
  let ?l' = "l\<lparr> itsCurrentCoordinates :=
                  push_back_at (itsActiveParameter l) c (x, y) (itsCurrentCoordinates l) \<rparr>"
  have i: "inside ?l' = inside l" by (simp add: inside_def fun_eq_iff)
  have "contained ?l'"
    using assms True unfolding contained_points i
    by (auto simp: points_push_back_at)
  with True show ?thesis by (simp add: after_def add_def)
qed

lemma perform_contained:
  assumes "contained l" and "perform stale op l = Some l'"
  shows "contained l'"
proof (cases op)
  case (BoundingBox x1 y1 x2 y2)
  with assms boundingBox_contained[OF assms(1), of x1 y1 x2 y2] show ?thesis by simp
next
  case (MinDistanceToSameValue d)
  with assms(2) have "inside l' = inside l \<and> itsCurrentCoordinates l' = itsCurrentCoordinates l
      \<and> itsPreviousCoordinates l' = itsPreviousCoordinates l"
    by (auto simp: after_def minDistanceToSameValue_def inside_def fun_eq_iff split: if_splits)
  with contained_subset[OF assms(1), of l'] show ?thesis by simp
next
  case (MinDistanceToDifferentValue d)
  with assms(2) have "inside l' = inside l \<and> itsCurrentCoordinates l' = itsCurrentCoordinates l
      \<and> itsPreviousCoordinates l' = itsPreviousCoordinates l"
    by (auto simp: after_def minDistanceToDifferentValue_def inside_def fun_eq_iff split: if_splits)
  with contained_subset[OF assms(1), of l'] show ?thesis by simp
next
  case (MinDistanceToDifferentParameter d)
  with assms(2) have "inside l' = inside l \<and> itsCurrentCoordinates l' = itsCurrentCoordinates l
      \<and> itsPreviousCoordinates l' = itsPreviousCoordinates l"
    by (auto simp: after_def minDistanceToDifferentParameter_def inside_def fun_eq_iff
        split: if_splits)
  with contained_subset[OF assms(1), of l'] show ?thesis by simp
next
  case (Parameter p)
  with assms(2) have "inside l' = inside l \<and> itsCurrentCoordinates l' = itsCurrentCoordinates l
      \<and> itsPreviousCoordinates l' = itsPreviousCoordinates l"
    by (auto simp: after_def parameter_def inside_def fun_eq_iff split: if_splits)
  with contained_subset[OF assms(1), of l'] show ?thesis by simp
next
  case (Add c x y)
  with assms add_contained[OF assms(1), of c x y] show ?thesis by simp
next
  case ChooseLabels
  with assms(2) obtain r where "chooseLabels stale l = Some (r, l')"
    using perform_ChooseLabels by blast
  with assms(1) show ?thesis by (rule chooseLabels_contained)
next
  case NextTime
  with assms(2) have "inside l' = inside l \<and> itsCurrentCoordinates l' = []
      \<and> itsPreviousCoordinates l' = itsCurrentCoordinates l"
    by (auto simp: nextTime_def inside_def fun_eq_iff)
  with contained_subset[OF assms(1), of l'] show ?thesis by (simp add: points_Nil)
next
  case Clear
  with assms(2) have "inside l' = inside l \<and> itsCurrentCoordinates l' = []
      \<and> itsPreviousCoordinates l' = []"
    by (auto simp: clear_def inside_def fun_eq_iff)
  with contained_subset[OF assms(1), of l'] show ?thesis by (simp add: points_Nil)
qed

lemma run_contained:
  "contained l \<Longrightarrow> run stale ops l = Some l' \<Longrightarrow> contained l'"
proof (induction ops arbitrary: l)
  case Nil
  then show ?case by simp
next
  case (Cons op ops)
  from Cons.prems(2) obtain m where m: "perform stale op l = Some m"
    and r: "run stale ops m = Some l'"
    by (auto split: option.splits)
  from Cons.IH[OF perform_contained[OF Cons.prems(1) m] r] show ?case .
qed

lemma boxed_one_run:
  "run stale [BoundingBox 0 0 10 10, Parameter 1, Add (Val 1) 5 5, Add (Val 1) 20 20]
     LabelLocator_init
     = Some boxed_one"
  by (simp add: call_eval boxed_one_def boxed_def LabelLocator_init_def)

text \<open>
  C5. In every locator reached by calls from construction that has a bounding box, every
  coordinate of the current and of the previous table lies in the half-open box.
\<close>

theorem stored_coordinates_inside:
  assumes "run stale ops LabelLocator_init = Some l" and "itHasBBox l"
    and "(g, s, (x, y)) \<in> set (entries (itsCurrentCoordinates l))
                          \<union> set (entries (itsPreviousCoordinates l))"
  shows "itsBBoxX1 l \<le> x \<and> x < itsBBoxX2 l \<and> itsBBoxY1 l \<le> y \<and> y < itsBBoxY2 l"
proof -
  have "contained LabelLocator_init" by (simp add: contained_def LabelLocator_init_def)
  from run_contained[OF this assms(1)] assms(3) have "inside l x y"
    unfolding contained_def by force
  with assms(2) show ?thesis by (simp add: inside_def)
qed

theorem stored_coordinates_inside_witness:
  "run Some [BoundingBox 0 0 10 10, Parameter 1, Add (Val 1) 5 5, Add (Val 1) 20 20]
     LabelLocator_init = Some boxed_one \<and>
   itHasBBox boxed_one \<and>
   entries (itsCurrentCoordinates boxed_one) = [(1, Val 1, (5,5))] \<and>
   itsBBoxX1 boxed_one \<le> 5 \<and> 5 < itsBBoxX2 boxed_one \<and>
   itsBBoxY1 boxed_one \<le> 5 \<and> 5 < itsBBoxY2 boxed_one"
proof -
  have b: "itHasBBox boxed_one" by (simp add: boxed_one_def boxed_def)
  have e: "entries (itsCurrentCoordinates boxed_one) = [(1, Val 1, (5,5))]"
    by (simp add: boxed_one_def)
  then have m: "(1, Val 1, (5,5)) \<in> set (entries (itsCurrentCoordinates boxed_one))
                   \<union> set (entries (itsPreviousCoordinates boxed_one))"
    by simp
  from stored_coordinates_inside[OF boxed_one_run[of Some] b m] boxed_one_run[of Some] b e
  show ?thesis by blast
qed

section \<open>Separation\<close>

lemma nan_state_run:
  "run stale [Parameter 1, Add NaN 0 0, Add NaN 60 0] LabelLocator_init = Some nan_state"
  by (simp add: call_eval nan_state_def LabelLocator_init_def)

lemma nan_state_choose:
  "chooseLabels Some nan_state = Some (Inr [(1, [(NaN, [(0,0),(60,0)])])], nan_state)"
proof -
  have r1: "chooseRound nan_state Some [(1, [(NaN, [(0,0),(60,0)])])] []
              = Inr ([(1, [(NaN, [(60,0)])])], [(1, [(NaN, [(0,0)])])])"
    by (simp add: nan_state_def LabelLocator_init_def choose_eval)
  have r2: "chooseRound nan_state Some [(1, [(NaN, [(60,0)])])] [(1, [(NaN, [(0,0)])])]
              = Inr ([], [(1, [(NaN, [(0,0),(60,0)])])])"
    by (simp add: nan_state_def LabelLocator_init_def choose_eval)
  have "chooseLoop nan_state Some [(1, [(NaN, [(0,0),(60,0)])])] []
          = Some (Inr [(1, [(NaN, [(0,0),(60,0)])])])"
    by (simp add: chooseLoop_round[OF _ r1] chooseLoop_round[OF _ r2] chooseLoop_Nil)
  then show ?thesis
    by (simp add: chooseLabels_def nan_state_def)
qed

lemma distance_0_60: "xy_distance (0,0) (60,0) = 60"
proof -
  have "sqrt (60 * 60) = \<bar>60 :: real\<bar>" by (rule real_sqrt_abs2)
  then show ?thesis by (simp add: xy_distance_def distance_def)
qed

lemma close_pair_run:
  "run stale [MinDistanceToSameValue (Val 20), Parameter 1, Add (Val 1) 0 0, Add (Val 1) 10 10]
     LabelLocator_init = Some close_pair"
  by (simp add: call_eval close_pair_def LabelLocator_init_def)

lemma close_pair_trap:
  "chooseLabels (\<lambda>p. None) close_pair
     = Some (Inl UseAfterFree, close_pair\<lparr> itsCurrentCoordinates := [] \<rparr>)"
proof -
  have r: "chooseRound close_pair (\<lambda>p. None) [(1, [(Val 1, [(0,0),(10,10)])])] []
             = Inl UseAfterFree"
    by (simp add: close_pair_def LabelLocator_init_def choose_eval)
  have "chooseLoop close_pair (\<lambda>p. None) [(1, [(Val 1, [(0,0),(10,10)])])] []
          = Some (Inl UseAfterFree)"
    by (simp add: chooseLoop_error[OF _ r])
  then show ?thesis
    by (simp add: chooseLabels_def close_pair_def)
qed

lemma close_pair_elsewhere:
  "chooseLabels (\<lambda>p. Some (1000,1000)) close_pair
     = Some (Inr [(1, [(Val 1, [(0,0),(10,10)])])], close_pair)"
proof -
  have r1: "chooseRound close_pair (\<lambda>p. Some (1000,1000)) [(1, [(Val 1, [(0,0),(10,10)])])] []
              = Inr ([(1, [(Val 1, [(10,10)])])], [(1, [(Val 1, [(0,0)])])])"
    by (simp add: close_pair_def LabelLocator_init_def choose_eval)
  have r2: "chooseRound close_pair (\<lambda>p. Some (1000,1000)) [(1, [(Val 1, [(10,10)])])]
              [(1, [(Val 1, [(0,0)])])]
              = Inr ([], [(1, [(Val 1, [(0,0),(10,10)])])])"
    by (simp add: close_pair_def LabelLocator_init_def choose_eval)
  have "chooseLoop close_pair (\<lambda>p. Some (1000,1000)) [(1, [(Val 1, [(0,0),(10,10)])])] []
          = Some (Inr [(1, [(Val 1, [(0,0),(10,10)])])])"
    by (simp add: chooseLoop_round[OF _ r1] chooseLoop_round[OF _ r2] chooseLoop_Nil)
  then show ?thesis
    by (simp add: chooseLabels_def close_pair_def)
qed

lemma close_pair_kept:
  "chooseLabels Some close_pair
     = Some (Inr [(1, [(Val 1, [(0,0)])])],
             close_pair\<lparr> itsCurrentCoordinates := [(1, [(Val 1, [(0,0)])])] \<rparr>)"
proof -
  have r1: "chooseRound close_pair Some [(1, [(Val 1, [(0,0),(10,10)])])] []
              = Inr ([], [(1, [(Val 1, [(0,0)])])])"
    by (simp add: close_pair_def LabelLocator_init_def choose_eval)
  have "chooseLoop close_pair Some [(1, [(Val 1, [(0,0),(10,10)])])] []
          = Some (Inr [(1, [(Val 1, [(0,0)])])])"
    by (simp add: chooseLoop_round[OF _ r1] chooseLoop_Nil)
  then show ?thesis
    by (simp add: chooseLabels_def close_pair_def)
qed

lemma distance_0_10: "xy_distance (0,0) (10,10) = sqrt 200"
  by (simp add: xy_distance_def distance_def)

lemma nan_boxed_run:
  "run stale [BoundingBox 0 0 200 200, Parameter 1, Add NaN 60 50, Add NaN 0 50] LabelLocator_init
     = Some nan_boxed"
  by (simp add: call_eval nan_boxed_def LabelLocator_init_def)

lemma nan_boxed_pick: "chooseOne nan_boxed [(60,50),(0,50)] 1 NaN = Some 1"
  by (simp add: nan_boxed_def LabelLocator_init_def chooseOne_def chooseClosestToBorder_def
      int32_def)

lemma nan_boxed_choose:
  "chooseLabels stale nan_boxed
     = Some (Inr [(1, [(NaN, [(0,50),(60,50)])])],
             nan_boxed\<lparr> itsCurrentCoordinates := [(1, [(NaN, [(0,50),(60,50)])])] \<rparr>)"
proof -
  have r1: "chooseRound nan_boxed stale [(1, [(NaN, [(60,50),(0,50)])])] []
              = Inr ([(1, [(NaN, [(60,50)])])], [(1, [(NaN, [(0,50)])])])"
    by (simp add: nan_boxed_def LabelLocator_init_def choose_eval int32_def)
  have r2: "chooseRound nan_boxed stale [(1, [(NaN, [(60,50)])])] [(1, [(NaN, [(0,50)])])]
              = Inr ([], [(1, [(NaN, [(0,50),(60,50)])])])"
    by (simp add: nan_boxed_def LabelLocator_init_def choose_eval int32_def)
  have "chooseLoop nan_boxed stale [(1, [(NaN, [(60,50),(0,50)])])] []
          = Some (Inr [(1, [(NaN, [(0,50),(60,50)])])])"
    by (simp add: chooseLoop_round[OF _ r1] chooseLoop_round[OF _ r2] chooseLoop_Nil)
  then show ?thesis
    by (simp add: chooseLabels_def nan_boxed_def)
qed

lemma distance_0_60_50: "xy_distance (0,50) (60,50) = 60"
proof -
  have "sqrt (60 * 60) = \<bar>60 :: real\<bar>" by (rule real_sqrt_abs2)
  then show ?thesis by (simp add: xy_distance_def distance_def)
qed

text \<open>
  C1 fails on the code, in two ways.

  With the default distances and two candidates 60 pixels apart under the contour value
  NaN, \<^verbatim>\<open>chooseLabels\<close> returns both in one list although the minimum distance to the
  same value is 100: \<^verbatim>\<open>contour != theContour\<close> holds for NaN, so a candidate is tested
  against the minimum distance to a different value, 50, by a choice of its own list. In
  the bounding box \<open>(0,0,200,200)\<close> with \<open>(60,50)\<close> added before \<open>(0,50)\<close> the chosen node is
  the last one visited, no erased node is read, and this is the result on every machine.

  And whenever a candidate is visited after the chosen one was erased, the test reads the
  erased node: of two candidates of one contour about 14.1 pixels apart with minimum
  distance 20, only the first is returned when the read still yields the chosen point,
  both are returned when it yields a point far away, and the program ends when the read
  is caught.
\<close>

theorem chooseLabels_separation_fails:
  "run stale [BoundingBox 0 0 200 200, Parameter 1, Add NaN 60 50, Add NaN 0 50] LabelLocator_init
     = Some nan_boxed \<and>
   itsMinDistanceToSameValue nan_boxed = Val 100 \<and>
   chooseOne nan_boxed [(60,50),(0,50)] 1 NaN = Some 1 \<and>
   erase_test nan_boxed (0,50) 1 NaN 1 NaN (60,50) = (xy_distance (0,50) (60,50) < 50) \<and>
   xy_distance (0,50) (60,50) = 60 \<and>
   chooseLabels stale nan_boxed
     = Some (Inr [(1, [(NaN, [(0,50),(60,50)])])],
             nan_boxed\<lparr> itsCurrentCoordinates := [(1, [(NaN, [(0,50),(60,50)])])] \<rparr>) \<and>
   entries [(1, [(NaN, [(0,50),(60,50)])])] = [(1, NaN, (0,50)), (1, NaN, (60,50))] \<and>
   run stale [Parameter 1, Add NaN 0 0, Add NaN 60 0] LabelLocator_init = Some nan_state \<and>
   itsMinDistanceToSameValue nan_state = Val 100 \<and>
   xy_distance (0,0) (60,0) = 60 \<and>
   chooseLabels Some nan_state = Some (Inr [(1, [(NaN, [(0,0),(60,0)])])], nan_state) \<and>
   run stale [MinDistanceToSameValue (Val 20), Parameter 1, Add (Val 1) 0 0, Add (Val 1) 10 10]
     LabelLocator_init = Some close_pair \<and>
   xy_distance (0,0) (10,10) = sqrt 200 \<and> sqrt 200 < 20 \<and>
   chooseLabels Some close_pair
     = Some (Inr [(1, [(Val 1, [(0,0)])])],
             close_pair\<lparr> itsCurrentCoordinates := [(1, [(Val 1, [(0,0)])])] \<rparr>) \<and>
   chooseLabels (\<lambda>p. None) close_pair
     = Some (Inl UseAfterFree, close_pair\<lparr> itsCurrentCoordinates := [] \<rparr>) \<and>
   chooseLabels (\<lambda>p. Some (1000,1000)) close_pair
     = Some (Inr [(1, [(Val 1, [(0,0),(10,10)])])], close_pair)"
proof -
  have e: "entries [(1, [(NaN, [(0,50),(60,50)])])] = [(1, NaN, (0,50)), (1, NaN, (60,50))]"
    by simp
  have mb: "itsMinDistanceToSameValue nan_boxed = Val 100"
    by (simp add: nan_boxed_def LabelLocator_init_def)
  have t: "erase_test nan_boxed (0,50) 1 NaN 1 NaN (60,50) = (xy_distance (0,50) (60,50) < 50)"
    by (simp add: nan_boxed_def LabelLocator_init_def erase_test_def xy_distance_def)
  have m: "itsMinDistanceToSameValue nan_state = Val 100"
    by (simp add: nan_state_def LabelLocator_init_def)
  have s: "sqrt 200 < 20" by (simp add: sqrt_less_iff)
  from nan_boxed_run mb nan_boxed_pick t distance_0_60_50 nan_boxed_choose e
    nan_state_run m distance_0_60 nan_state_choose close_pair_run distance_0_10 s
    close_pair_kept close_pair_trap close_pair_elsewhere
  show ?thesis by blast
qed

section \<open>Termination\<close>

lemma zero_distance_run:
  "run stale [MinDistanceToSameValue (Val 0), Parameter 1, Add (Val 1) 0 0] LabelLocator_init
     = Some zero_distance"
  by (simp add: call_eval zero_distance_def LabelLocator_init_def)

lemma zero_distance_round:
  "chooseRound zero_distance stale [(1, [(Val 1, [(0,0)])])] ch
     = Inr ([(1, [(Val 1, [(0,0)])])], push_back_at 1 (Val 1) (0,0) ch)"
  by (simp add: zero_distance_def LabelLocator_init_def chooseRound_def chooseOne_def
      chooseClosestToBorder_def removeCandidates_def removeEmpties_def erase_test_def
      distance_def Let_def)

lemma zero_distance_loop: "chooseLoop zero_distance stale [(1, [(Val 1, [(0,0)])])] ch = None"
proof (cases "chooseLoop zero_distance stale [(1, [(Val 1, [(0,0)])])] ch")
  case None
  then show ?thesis .
next
  case (Some r)
  let ?P = "\<lambda>l (st :: XY \<Rightarrow> XY option) (c :: ParamCoordinates) (ch :: ParamCoordinates)
              (r :: error + ParamCoordinates).
              l = zero_distance \<longrightarrow> c = [(1, [(Val 1, [(0,0)])])] \<longrightarrow> False"
  have "?P zero_distance stale [(1, [(Val 1, [(0,0)])])] ch r"
  proof (rule chooseLoop.raw_induct[where P = ?P, OF _ Some])
    fix f l st c ch r
    assume ih: "\<And>l st c ch r. f l st c ch = Some r \<Longrightarrow> ?P l st c ch r"
      and eq: "(if c = [] then Some (Inr ch)
                else case chooseRound l st c ch of
                       Inl e \<Rightarrow> Some (Inl e)
                     | Inr (candidates', choices') \<Rightarrow> f l st candidates' choices') = Some r"
    show "?P l st c ch r"
    proof (intro impI)
      assume l: "l = zero_distance" and c: "c = [(1, [(Val 1, [(0,0)])])]"
      from eq have "f zero_distance st [(1, [(Val 1, [(0,0)])])]
                      (push_back_at 1 (Val 1) (0,0) ch) = Some r"
        unfolding l c by (simp add: zero_distance_round)
      from ih[OF this] show False by simp
    qed
  qed
  then show ?thesis by simp
qed

text \<open>
  C2 fails on the code. With the minimum distance to the same value set to 0, a pass over
  the single candidate \<open>(0,0)\<close> chooses it and erases nothing, since its distance 0 from
  itself is not less than 0; the candidates are as before, and \<^verbatim>\<open>chooseLabels\<close> never
  returns.
\<close>

theorem chooseLabels_never_returns:
  "run stale [MinDistanceToSameValue (Val 0), Parameter 1, Add (Val 1) 0 0] LabelLocator_init
     = Some zero_distance \<and>
   xy_distance (0,0) (0,0) = 0 \<and>
   \<not> erase_test zero_distance (0,0) 1 (Val 1) 1 (Val 1) (0,0) \<and>
   chooseRound zero_distance stale [(1, [(Val 1, [(0,0)])])] []
     = Inr ([(1, [(Val 1, [(0,0)])])], [(1, [(Val 1, [(0,0)])])]) \<and>
   chooseLabels stale zero_distance = None"
proof -
  have "xy_distance (0,0) (0,0) = 0" by (simp add: xy_distance_def distance_def)
  moreover have "\<not> erase_test zero_distance (0,0) 1 (Val 1) 1 (Val 1) (0,0)"
    by (simp add: erase_test_def zero_distance_def LabelLocator_init_def distance_def)
  moreover have "chooseRound zero_distance stale [(1, [(Val 1, [(0,0)])])] []
     = Inr ([(1, [(Val 1, [(0,0)])])], [(1, [(Val 1, [(0,0)])])])"
    by (simp add: zero_distance_round push_back_at_def)
  moreover have "chooseLabels stale zero_distance = None"
    using zero_distance_loop[of stale "[]"] by (simp add: chooseLabels_def zero_distance_def)
  ultimately show ?thesis using zero_distance_run by blast
qed

section \<open>Scenarios\<close>

lemma temporal_before_run:
  "run stale [MinDistanceToSameValue (Val 1), Parameter 1, Add (Val 5) 2 2] LabelLocator_init
     = Some temporal_before"
  by (simp add: call_eval temporal_before_def LabelLocator_init_def)

lemma temporal_before_choose:
  "chooseLabels stale temporal_before = Some (Inr [(1, [(Val 5, [(2,2)])])], temporal_before)"
proof -
  have r: "chooseRound temporal_before stale [(1, [(Val 5, [(2,2)])])] []
             = Inr ([], [(1, [(Val 5, [(2,2)])])])"
    by (simp add: temporal_before_def LabelLocator_init_def choose_eval)
  have "chooseLoop temporal_before stale [(1, [(Val 5, [(2,2)])])] []
          = Some (Inr [(1, [(Val 5, [(2,2)])])])"
    by (simp add: chooseLoop_round[OF _ r] chooseLoop_Nil)
  then show ?thesis
    by (simp add: chooseLabels_def temporal_before_def)
qed











lemma cascade_run:
  "run stale [MinDistanceToSameValue (Val 20), MinDistanceToDifferentValue (Val 1), Parameter 1,
        Add (Val 1) 0 0, Add (Val 1) 10 10, Add (Val 2) 5 5] LabelLocator_init = Some cascade"
  by (simp add: call_eval cascade_def LabelLocator_init_def)

lemma cascade_pick:
  "chooseOne cascade [(0,0),(10,10)] 1 (Val 1) = Some 0"
  "chooseOne cascade [(10,10),(0,0)] 1 (Val 1) = Some 0"
  by (simp_all add: cascade_def LabelLocator_init_def choose_eval)

lemma cascade_tests:
  "erase_test cascade p 1 (Val 1) 1 (Val 1) q \<longleftrightarrow> xy_distance p q < 20"
  "erase_test cascade p 1 (Val 1) 1 (Val 2) q \<longleftrightarrow> xy_distance p q < 1"
  by (simp_all add: cascade_def LabelLocator_init_def erase_test_def xy_distance_def)

lemma cascade_distances:
  "xy_distance (0,0) (10,10) = sqrt 200" "sqrt 200 < 20"
  "xy_distance (0,0) (5,5) = sqrt 50" "1 \<le> sqrt 50"
  by (simp_all add: xy_distance_def distance_def sqrt_less_iff not_less[symmetric])

lemma cascade_choose:
  assumes "stale (0,0) = Some (0,0)"
  shows "map_option fst (chooseLabels stale cascade)
           = Some (Inr [(1, [(Val 1, [(0,0)]), (Val 2, [(5,5)])])])"
proof -
  have r: "chooseRound cascade stale [(1, [(Val 1, [(0,0),(10,10)]), (Val 2, [(5,5)])])] []
             = Inr ([], [(1, [(Val 1, [(0,0)]), (Val 2, [(5,5)])])])"
    using assms by (simp add: cascade_def LabelLocator_init_def choose_eval)
  have "chooseLoop cascade stale [(1, [(Val 1, [(0,0),(10,10)]), (Val 2, [(5,5)])])] []
          = Some (Inr [(1, [(Val 1, [(0,0)]), (Val 2, [(5,5)])])])"
    by (simp add: chooseLoop_round[OF _ r] chooseLoop_Nil)
  then show ?thesis
    by (simp add: chooseLabels_def cascade_def)
qed

lemma cascade_trap:
  assumes "stale (0,0) = None"
  shows "map_option fst (chooseLabels stale cascade) = Some (Inl UseAfterFree)"
proof -
  have r: "chooseRound cascade stale [(1, [(Val 1, [(0,0),(10,10)]), (Val 2, [(5,5)])])] []
             = Inl UseAfterFree"
    using assms by (simp add: cascade_def LabelLocator_init_def choose_eval)
  have "chooseLoop cascade stale [(1, [(Val 1, [(0,0),(10,10)]), (Val 2, [(5,5)])])] []
          = Some (Inl UseAfterFree)"
    by (simp add: chooseLoop_error[OF _ r])
  then show ?thesis
    by (simp add: chooseLabels_def cascade_def)
qed

lemma cascade_elsewhere:
  "map_option fst (chooseLabels (\<lambda>p. if p = (0,0) then Some (1000,1000) else Some p) cascade)
     = Some (Inr [(1, [(Val 1, [(0,0),(10,10)]), (Val 2, [(5,5)])])])"
proof -
  let ?st = "\<lambda>p :: XY. if p = (0,0) then Some (1000,1000) else Some p"
  have r1: "chooseRound cascade ?st [(1, [(Val 1, [(0,0),(10,10)]), (Val 2, [(5,5)])])] []
             = Inr ([(1, [(Val 1, [(10,10)])])], [(1, [(Val 1, [(0,0)]), (Val 2, [(5,5)])])])"
    by (simp add: cascade_def LabelLocator_init_def choose_eval)
  have r2: "chooseRound cascade ?st [(1, [(Val 1, [(10,10)])])]
              [(1, [(Val 1, [(0,0)]), (Val 2, [(5,5)])])]
             = Inr ([], [(1, [(Val 1, [(0,0),(10,10)]), (Val 2, [(5,5)])])])"
    by (simp add: cascade_def LabelLocator_init_def choose_eval)
  have "chooseLoop cascade ?st [(1, [(Val 1, [(0,0),(10,10)]), (Val 2, [(5,5)])])] []
          = Some (Inr [(1, [(Val 1, [(0,0),(10,10)]), (Val 2, [(5,5)])])])"
    by (simp add: chooseLoop_round[OF _ r1] chooseLoop_round[OF _ r2] chooseLoop_Nil)
  then show ?thesis
    by (simp add: chooseLabels_def cascade_def)
qed

text \<open>
  C8 fails on the code. In the cascade scenario \<^verbatim>\<open>chooseOne\<close> picks \<open>(0,0)\<close>, the first
  candidate added; candidates of contour 1 are tested against the distance 20 and those of
  contour 2 against 1; \<open>(10,10)\<close> is \<open>sqrt 200 < 20\<close> and \<open>(5,5)\<close> is \<open>sqrt 50 \<ge> 1\<close> from
  \<open>(0,0)\<close>. But both tests are made after the node of \<open>(0,0)\<close> was erased and read it:
  \<open>{1: {1: [(0,0)], 2: [(5,5)]}}\<close> is returned when the read still yields \<open>(0,0)\<close>; the
  program ends when the read is caught; and \<open>(10,10)\<close> is returned as well when the read
  yields a point far away.
\<close>

theorem cascade_removal_scenario:
  "run stale [MinDistanceToSameValue (Val 20), MinDistanceToDifferentValue (Val 1), Parameter 1,
        Add (Val 1) 0 0, Add (Val 1) 10 10, Add (Val 2) 5 5] LabelLocator_init = Some cascade \<and>
   \<not> itHasBBox cascade \<and> itsPreviousCoordinates cascade = [] \<and>
   chooseOne cascade [(0,0),(10,10)] 1 (Val 1) = Some 0 \<and>
   chooseOne cascade [(10,10),(0,0)] 1 (Val 1) = Some 0 \<and>
   erase_test cascade p 1 (Val 1) 1 (Val 1) q = (xy_distance p q < 20) \<and>
   erase_test cascade p 1 (Val 1) 1 (Val 2) q = (xy_distance p q < 1) \<and>
   xy_distance (0,0) (10,10) = sqrt 200 \<and> sqrt 200 < 20 \<and>
   xy_distance (0,0) (5,5) = sqrt 50 \<and> 1 \<le> sqrt 50 \<and>
   map_option fst (chooseLabels Some cascade)
     = Some (Inr [(1, [(Val 1, [(0,0)]), (Val 2, [(5,5)])])]) \<and>
   map_option fst (chooseLabels (\<lambda>p. None) cascade) = Some (Inl UseAfterFree) \<and>
   map_option fst (chooseLabels (\<lambda>p. if p = (0,0) then Some (1000,1000) else Some p) cascade)
     = Some (Inr [(1, [(Val 1, [(0,0),(10,10)]), (Val 2, [(5,5)])])])"
proof -
  have b: "\<not> itHasBBox cascade \<and> itsPreviousCoordinates cascade = []"
    by (simp add: cascade_def LabelLocator_init_def)
  from cascade_run b cascade_pick cascade_tests cascade_distances
    cascade_choose[of Some] cascade_trap[of "\<lambda>p. None"] cascade_elsewhere
  show ?thesis by simp
qed

section \<open>Lifecycle and configuration\<close>

text \<open>
  C4 (as the code behaves). Immediately after \<^verbatim>\<open>clear\<close> the locator is empty, and after any
  further calls other than \<^verbatim>\<open>parameter\<close>, \<^verbatim>\<open>add\<close> throws (InvalidState) when the point
  passes the bounding-box test and silently ignores the point when it does not.
\<close>

theorem add_after_clear:
  assumes "run stale ops (clear l) = Some l'" and "\<forall>op\<in>set ops. \<not> activates op"
  shows "empty_locator (clear l) \<and>
         add theContour theX theY l' = (if inside l' theX theY then Inl InvalidState else Inr l')"
proof -
  have "itsActiveParameter (clear l) = badparameter" by (simp add: clear_def)
  from run_keeps_unset[OF assms(1) assms(2) this]
  show ?thesis by (simp add: add_def empty_locator_def clear_def)
qed

theorem add_after_clear_witness:
  "run Some [NextTime, MinDistanceToSameValue (Val 3)] (clear boxed)
     = Some (boxed\<lparr> itsMinDistanceToSameValue := Val 3 \<rparr>) \<and>
   empty_locator (clear boxed) \<and>
   add (Val 1) 5 5 (boxed\<lparr> itsMinDistanceToSameValue := Val 3 \<rparr>) = Inl InvalidState \<and>
   add (Val 1) 20 20 (boxed\<lparr> itsMinDistanceToSameValue := Val 3 \<rparr>)
     = Inr (boxed\<lparr> itsMinDistanceToSameValue := Val 3 \<rparr>)"
proof -
  have r: "run Some [NextTime, MinDistanceToSameValue (Val 3)] (clear boxed)
             = Some (boxed\<lparr> itsMinDistanceToSameValue := Val 3 \<rparr>)"
    by (simp add: call_eval boxed_def LabelLocator_init_def)
  have h: "\<forall>op\<in>set [NextTime, MinDistanceToSameValue (Val 3)]. \<not> activates op"
    by simp
  have i: "inside (boxed\<lparr> itsMinDistanceToSameValue := Val 3 \<rparr>) 5 5"
          "\<not> inside (boxed\<lparr> itsMinDistanceToSameValue := Val 3 \<rparr>) 20 20"
    by (simp_all add: inside_def boxed_def LabelLocator_init_def)
  from add_after_clear[OF r h, of "Val 1" 5 5] i(1)
  have a: "empty_locator (clear boxed) \<and>
           add (Val 1) 5 5 (boxed\<lparr> itsMinDistanceToSameValue := Val 3 \<rparr>) = Inl InvalidState"
    by (simp only: if_True)
  from add_after_clear[OF r h, of "Val 1" 20 20] i(2)
  have b: "add (Val 1) 20 20 (boxed\<lparr> itsMinDistanceToSameValue := Val 3 \<rparr>)
             = Inr (boxed\<lparr> itsMinDistanceToSameValue := Val 3 \<rparr>)"
    by (simp only: if_False)
  from r a b show ?thesis by blast
qed

text \<open>
  C4 (as stated) fails: after \<^verbatim>\<open>clear\<close>, with the bounding box \<open>(0,0,10,10)\<close> still set,
  \<^verbatim>\<open>add\<close> of the outside point \<open>(20,20)\<close> returns normally although no parameter is active.
\<close>

theorem add_after_clear_counterexample:
  "boundingBox 0 0 10 10 LabelLocator_init = Inr boxed \<and>
   empty_locator (clear boxed) \<and>
   add (Val 1) 20 20 (clear boxed) = Inr (clear boxed) \<and>
   add (Val 1) 20 20 (clear boxed) \<noteq> Inl InvalidState"
  by (simp add: call_eval boxed_def LabelLocator_init_def)

text \<open>
  C6. After \<^verbatim>\<open>nextTime\<close> the previous coordinates are the current coordinates of the moment
  of the call and the current coordinates are empty; \<^verbatim>\<open>chooseLabels\<close> leaves the choices it
  returns in the current coordinates, so that \<^verbatim>\<open>nextTime\<close> moves exactly them.
\<close>

theorem nextTime_rotates:
  "itsPreviousCoordinates (nextTime l) = itsCurrentCoordinates l \<and>
   itsCurrentCoordinates (nextTime l) = [] \<and>
   (chooseLabels stale l = Some (Inr choices, l') \<longrightarrow>
      itsCurrentCoordinates l' = choices \<and>
      itsPreviousCoordinates (nextTime l') = choices \<and>
      itsCurrentCoordinates (nextTime l') = [])"
  by (auto simp: nextTime_def chooseLabels_def split: option.splits sum.splits)

theorem nextTime_rotates_witness:
  "chooseLabels Some temporal_before = Some (Inr [(1, [(Val 5, [(2,2)])])], temporal_before) \<and>
   itsCurrentCoordinates temporal_before = [(1, [(Val 5, [(2,2)])])] \<and>
   itsPreviousCoordinates (nextTime temporal_before) = [(1, [(Val 5, [(2,2)])])] \<and>
   itsCurrentCoordinates (nextTime temporal_before) = []"
  using nextTime_rotates[of temporal_before Some "[(1, [(Val 5, [(2,2)])])]" temporal_before]
    temporal_before_choose[of Some]
  by simp

text \<open>
  C7. \<^verbatim>\<open>boundingBox\<close> throws when the box is empty (\<open>x2 \<le> x1\<close> or \<open>y2 \<le> y1\<close>) or a
  coordinate is stored (current or previous); each minimum-distance setter throws when a
  coordinate is stored; a setter that returns found both tables empty and changed the
  members it names only.
\<close>

theorem configuration_immutability:
  "(theX2 \<le> theX1 \<or> theY2 \<le> theY1 \<or>
      entries (itsCurrentCoordinates l) \<noteq> [] \<or> entries (itsPreviousCoordinates l) \<noteq> []
    \<longrightarrow> boundingBox theX1 theY1 theX2 theY2 l = Inl InvalidConfiguration) \<and>
   (entries (itsCurrentCoordinates l) \<noteq> [] \<or> entries (itsPreviousCoordinates l) \<noteq> []
    \<longrightarrow> minDistanceToSameValue d l = Inl InvalidConfiguration \<and>
        minDistanceToDifferentValue d l = Inl InvalidConfiguration \<and>
        minDistanceToDifferentParameter d l = Inl InvalidConfiguration) \<and>
   (boundingBox theX1 theY1 theX2 theY2 l = Inr l'
    \<longrightarrow> itsCurrentCoordinates l = [] \<and> itsPreviousCoordinates l = [] \<and>
        l' = l\<lparr> itHasBBox := True, itsBBoxX1 := theX1, itsBBoxY1 := theY1,
                 itsBBoxX2 := theX2, itsBBoxY2 := theY2 \<rparr>) \<and>
   (minDistanceToSameValue d l = Inr l'
    \<longrightarrow> itsCurrentCoordinates l = [] \<and> itsPreviousCoordinates l = [] \<and>
        l' = l\<lparr> itsMinDistanceToSameValue := d \<rparr>) \<and>
   (minDistanceToDifferentValue d l = Inr l'
    \<longrightarrow> itsCurrentCoordinates l = [] \<and> itsPreviousCoordinates l = [] \<and>
        l' = l\<lparr> itsMinDistanceToDifferentValue := d \<rparr>) \<and>
   (minDistanceToDifferentParameter d l = Inr l'
    \<longrightarrow> itsCurrentCoordinates l = [] \<and> itsPreviousCoordinates l = [] \<and>
        l' = l\<lparr> itsMinDistanceToDifferentParameter := d \<rparr>)"
  by (auto simp: boundingBox_def minDistanceToSameValue_def minDistanceToDifferentValue_def
      minDistanceToDifferentParameter_def empty_locator_def split: if_splits)

theorem configuration_immutability_witness:
  "entries (itsCurrentCoordinates temporal_bias) \<noteq> [] \<and>
   boundingBox 0 0 10 10 temporal_bias = Inl InvalidConfiguration \<and>
   minDistanceToSameValue (Val 7) temporal_bias = Inl InvalidConfiguration \<and>
   minDistanceToDifferentValue (Val 7) temporal_bias = Inl InvalidConfiguration \<and>
   minDistanceToDifferentParameter (Val 7) temporal_bias = Inl InvalidConfiguration \<and>
   boundingBox 0 0 0 10 LabelLocator_init = Inl InvalidConfiguration \<and>
   boundingBox 0 0 10 10 LabelLocator_init = Inr boxed \<and>
   minDistanceToSameValue (Val 7) LabelLocator_init
     = Inr (LabelLocator_init\<lparr> itsMinDistanceToSameValue := Val 7 \<rparr>) \<and>
   minDistanceToDifferentValue (Val 7) LabelLocator_init
     = Inr (LabelLocator_init\<lparr> itsMinDistanceToDifferentValue := Val 7 \<rparr>) \<and>
   minDistanceToDifferentParameter (Val 7) LabelLocator_init
     = Inr (LabelLocator_init\<lparr> itsMinDistanceToDifferentParameter := Val 7 \<rparr>) \<and>
   itsCurrentCoordinates LabelLocator_init = [] \<and> itsPreviousCoordinates LabelLocator_init = []"
proof -
  have e: "entries (itsCurrentCoordinates temporal_bias) \<noteq> []"
    by (simp add: temporal_bias_def)
  have b: "boundingBox 0 0 10 10 LabelLocator_init = Inr boxed"
    by (simp add: boundingBox_def empty_locator_def boxed_def LabelLocator_init_def)
  have s: "minDistanceToSameValue (Val 7) LabelLocator_init
             = Inr (LabelLocator_init\<lparr> itsMinDistanceToSameValue := Val 7 \<rparr>)"
    by (simp add: minDistanceToSameValue_def empty_locator_def LabelLocator_init_def)
  have v: "minDistanceToDifferentValue (Val 7) LabelLocator_init
             = Inr (LabelLocator_init\<lparr> itsMinDistanceToDifferentValue := Val 7 \<rparr>)"
    by (simp add: minDistanceToDifferentValue_def empty_locator_def LabelLocator_init_def)
  have p: "minDistanceToDifferentParameter (Val 7) LabelLocator_init
             = Inr (LabelLocator_init\<lparr> itsMinDistanceToDifferentParameter := Val 7 \<rparr>)"
    by (simp add: minDistanceToDifferentParameter_def empty_locator_def LabelLocator_init_def)
  have d: "(0::int) \<le> 0" by simp
  from configuration_immutability[of 10 0 10 0 temporal_bias "Val 7" boxed] e
  have f: "boundingBox 0 0 10 10 temporal_bias = Inl InvalidConfiguration \<and>
           minDistanceToSameValue (Val 7) temporal_bias = Inl InvalidConfiguration \<and>
           minDistanceToDifferentValue (Val 7) temporal_bias = Inl InvalidConfiguration \<and>
           minDistanceToDifferentParameter (Val 7) temporal_bias = Inl InvalidConfiguration"
    by blast
  from configuration_immutability[of 0 0 10 0 LabelLocator_init "Val 7" boxed] d
  have g: "boundingBox 0 0 0 10 LabelLocator_init = Inl InvalidConfiguration"
    by blast
  from configuration_immutability[of 10 0 10 0 LabelLocator_init "Val 7" boxed] b
  have k: "itsCurrentCoordinates LabelLocator_init = [] \<and> itsPreviousCoordinates LabelLocator_init = []"
    by blast
  from configuration_immutability[of 10 0 10 0 LabelLocator_init "Val 7"
      "LabelLocator_init\<lparr> itsMinDistanceToSameValue := Val 7 \<rparr>"] s
  have k1: "itsCurrentCoordinates LabelLocator_init = []" by blast
  from configuration_immutability[of 10 0 10 0 LabelLocator_init "Val 7"
      "LabelLocator_init\<lparr> itsMinDistanceToDifferentValue := Val 7 \<rparr>"] v
  have k2: "itsPreviousCoordinates LabelLocator_init = []" by blast
  from configuration_immutability[of 10 0 10 0 LabelLocator_init "Val 7"
      "LabelLocator_init\<lparr> itsMinDistanceToDifferentParameter := Val 7 \<rparr>"] p
  have k3: "itsCurrentCoordinates LabelLocator_init = []" by blast
  from e b s v p f g k k1 k2 k3 show ?thesis by blast
qed

text \<open>
  C9. \<^verbatim>\<open>clear\<close> keeps the bounding box and the three minimum distances; a point outside a
  bounding box set before \<^verbatim>\<open>clear\<close> is still silently ignored by \<^verbatim>\<open>add\<close> afterwards.
\<close>

theorem clear_keeps_configuration:
  "itHasBBox (clear l) = itHasBBox l \<and>
   itsBBoxX1 (clear l) = itsBBoxX1 l \<and> itsBBoxY1 (clear l) = itsBBoxY1 l \<and>
   itsBBoxX2 (clear l) = itsBBoxX2 l \<and> itsBBoxY2 (clear l) = itsBBoxY2 l \<and>
   itsMinDistanceToSameValue (clear l) = itsMinDistanceToSameValue l \<and>
   itsMinDistanceToDifferentValue (clear l) = itsMinDistanceToDifferentValue l \<and>
   itsMinDistanceToDifferentParameter (clear l) = itsMinDistanceToDifferentParameter l \<and>
   inside (clear l) theX theY = inside l theX theY \<and>
   (itHasBBox l \<and> \<not> inside l theX theY \<longrightarrow> add theContour theX theY (clear l) = Inr (clear l))"
  by (simp add: clear_def inside_def add_def)

theorem clear_keeps_configuration_witness:
  "itHasBBox boxed \<and> \<not> inside boxed 20 20 \<and> itHasBBox (clear boxed) \<and>
   itsBBoxX2 (clear boxed) = 10 \<and> add (Val 1) 20 20 (clear boxed) = Inr (clear boxed)"
proof -
  have h: "itHasBBox boxed \<and> \<not> inside boxed 20 20"
    by (simp add: boxed_def inside_def LabelLocator_init_def)
  have x: "itsBBoxX2 boxed = 10" by (simp add: boxed_def)
  from clear_keeps_configuration[of boxed 20 20 "Val 1"] h x
  show ?thesis
    by (elim conjE, intro conjI) simp_all
qed





lemma default_nan_first_run:
  "run stale [Parameter 7, Add NaN 0 75] LabelLocator_init = Some default_nan_first"
  by (simp add: call_eval default_nan_first_def LabelLocator_init_def)







end
